theory Spec2Isabelle
  imports Complex_Main
begin

section \<open>Python strings\<close>

text \<open>
  The program is Python: its strings are sequences of Unicode code points. A character
  is modelled as a \<^typ>\<open>char\<close>, read as a code point in U+0000..U+00FF (Latin-1),
  and the character classes of \<open>str\<close> are written out on that range:
  \<open>str.isdigit\<close> holds of the ten ASCII digits and of the superscripts U+00B2, U+00B3 and
  U+00B9; \<open>str.isspace\<close> (what \<open>str.strip()\<close> removes) holds of U+0009..U+000D,
  U+001C..U+0020, U+0085 and U+00A0. Code points above U+00FF are outside the model.
\<close>

definition isdigit :: "char \<Rightarrow> bool" where
  "isdigit ch = (let c = (of_char ch :: nat) in (48 \<le> c \<and> c \<le> 57) \<or> c = 178 \<or> c = 179 \<or> c = 185)"

definition isspace :: "char \<Rightarrow> bool" where
  "isspace ch = (let c = (of_char ch :: nat) in (9 \<le> c \<and> c \<le> 13) \<or> (28 \<le> c \<and> c \<le> 32) \<or> c = 133 \<or> c = 160)"

definition lstrip_ws :: "string \<Rightarrow> string" where
  "lstrip_ws s = dropWhile isspace s"

definition rstrip_ws :: "string \<Rightarrow> string" where
  "rstrip_ws s = rev (dropWhile isspace (rev s))"

definition strip :: "string \<Rightarrow> string" where
  "strip s = rstrip_ws (lstrip_ws s)"

text \<open>\<open>t.lstrip("0")\<close>: only the ASCII zero is removed.\<close>

definition lstrip_zero :: "string \<Rightarrow> string" where
  "lstrip_zero t = dropWhile (\<lambda>ch. ch = CHR ''0'') t"

text \<open>\<open>str.lower()\<close> on Latin-1: A..Z, and U+00C0..U+00DE without U+00D7, move up by 32.\<close>

definition lower_char :: "char \<Rightarrow> char" where
  "lower_char ch = (let c = (of_char ch :: nat) in
     if (65 \<le> c \<and> c \<le> 90) \<or> (192 \<le> c \<and> c \<le> 222 \<and> c \<noteq> 215) then char_of (c + 32) else ch)"

definition lower :: "string \<Rightarrow> string" where
  "lower s = map lower_char s"

definition startswith :: "string \<Rightarrow> string \<Rightarrow> bool" where
  "startswith s p = (take (length p) s = p)"

section \<open>Normalizer: \<open>norm_num\<close>\<close>

text \<open>
  \<^verbatim>\<open>
  def norm_num(s: str) -> str:
      t = "".join(ch for ch in (s or "") if ch.isdigit())
      if t == "":
          return (s or "").strip()
      return t.lstrip("0") or "0"
  \<close>
  The argument is a \<open>str\<close> at every call site, so \<open>s or ""\<close> is \<open>s\<close>.
\<close>

definition norm_num :: "string \<Rightarrow> string" where
  "norm_num s =
     (let t = filter isdigit s in
      if t = [] then strip s
      else (let u = lstrip_zero t in if u = [] then ''0'' else u))"

section \<open>Record Parser: \<open>read_unmatched\<close>\<close>

definition REQ_OPER :: string where "REQ_OPER = ''OPER_oper_no''"
definition REQ_NEW :: string where "REQ_NEW = ''CS_Dept''"
definition OPT_OLD :: string where "OPT_OLD = ''AW_Dept''"

text \<open>The three synonym tuples of the header loop, in the order of the source.\<close>

definition oper_names :: "string list" where
  "oper_names = [''oper_oper_no'', ''oper no'', ''oper_no'', ''operator id'', ''operator'',
                 ''oper id'', ''id'', ''oper'']"

definition new_names :: "string list" where
  "new_names = [''cs_dept'', ''cs dept'', ''cd_dept'', ''dept_code'', ''dept code'', ''dept'',
                ''department'', ''new dept'', ''new department'']"

definition old_names :: "string list" where
  "old_names = [''aw_dept'', ''aw dept'', ''aw_dept_code'', ''aw dept code'']"

text \<open>
  One pass of the body of \<open>for i, h in enumerate(header_low)\<close>: three independent
  \<open>if\<close>s, each storing the current index under its role.
\<close>

definition match_header :: "nat \<Rightarrow> string \<Rightarrow> (string \<rightharpoonup> nat) \<Rightarrow> (string \<rightharpoonup> nat)" where
  "match_header i h name_map =
     (let m1 = (if h \<in> set oper_names then name_map(REQ_OPER \<mapsto> i) else name_map);
          m2 = (if h \<in> set new_names then m1(REQ_NEW \<mapsto> i) else m1);
          m3 = (if h \<in> set old_names then m2(OPT_OLD \<mapsto> i) else m2)
      in m3)"

fun detect_header :: "nat \<Rightarrow> string list \<Rightarrow> (string \<rightharpoonup> nat) \<Rightarrow> (string \<rightharpoonup> nat)" where
  "detect_header i [] name_map = name_map"
| "detect_header i (h # hs) name_map = detect_header (Suc i) hs (match_header i h name_map)"

definition header_low :: "string list \<Rightarrow> string list" where
  "header_low row0 = map (\<lambda>h. lower (strip h)) row0"

text \<open>
  The column map in force after the header has been read: the by-name map, overwritten by
  the positional scheme when \<open>REQ_OPER\<close> or \<open>REQ_NEW\<close> is missing from it.
\<close>

definition column_map :: "string list \<Rightarrow> (string \<rightharpoonup> nat)" where
  "column_map row0 =
     (let name_map = detect_header 0 (header_low row0) Map.empty in
      if name_map REQ_OPER = None \<or> name_map REQ_NEW = None then
        (let m = name_map(REQ_OPER \<mapsto> 0) in
         if 3 \<le> length row0 then (m(OPT_OLD \<mapsto> 1))(REQ_NEW \<mapsto> 2)
         else if 2 \<le> length row0 then m(REQ_NEW \<mapsto> 1)
         else m)
      else name_map)"

definition cell :: "string list \<Rightarrow> nat \<Rightarrow> string" where
  "cell r i = (if i < length r then strip (r ! i) else [])"

text \<open>
  The exceptions the model tells apart; \<open>OSError\<close> stands for any other exception of the
  file system or of decoding, with its message.
\<close>

datatype error = KeyError string | ValueError string | OSError string

text \<open>
  The loop over \<open>rows[1:]\<close>. \<open>name_map[REQ_OPER]\<close> and \<open>name_map[REQ_NEW]\<close> raise
  \<open>KeyError\<close> on a missing key, which leaves \<open>read_unmatched\<close>; a record is a dict from
  the role names to strings.
\<close>

fun parse_rows ::
  "(string \<rightharpoonup> nat) \<Rightarrow> string list list \<Rightarrow> (string \<rightharpoonup> string) list \<Rightarrow> error + (string \<rightharpoonup> string) list" where
  "parse_rows name_map [] out = Inr out"
| "parse_rows name_map (r # rs) out =
     (if r = [] then parse_rows name_map rs out
      else case name_map REQ_OPER of
        None \<Rightarrow> Inl (KeyError REQ_OPER)
      | Some io \<Rightarrow>
         (case name_map REQ_NEW of
            None \<Rightarrow> Inl (KeyError REQ_NEW)
          | Some inew \<Rightarrow>
             (let oper = cell r io; newd = cell r inew in
              if oper = [] \<or> newd = [] then parse_rows name_map rs out
              else
                (let rec = [REQ_OPER \<mapsto> norm_num oper, REQ_NEW \<mapsto> norm_num newd];
                     rec' = (case name_map OPT_OLD of
                               None \<Rightarrow> rec
                             | Some iold \<Rightarrow> rec(OPT_OLD \<mapsto> norm_num (cell r iold)))
                 in parse_rows name_map rs (out @ [rec'])))))"

text \<open>\<open>read_unmatched\<close> on the rows that \<open>csv.reader\<close> delivers.\<close>

definition read_unmatched :: "string list list \<Rightarrow> error + (string \<rightharpoonup> string) list" where
  "read_unmatched rows =
     (if length rows < 2 then Inr []
      else parse_rows (column_map (rows ! 0)) (drop 1 rows) [])"

section \<open>Reference Indexer: \<open>index_active_list\<close>\<close>

definition setdefault :: "(string \<rightharpoonup> string) \<Rightarrow> string \<Rightarrow> string \<Rightarrow> (string \<rightharpoonup> string)" where
  "setdefault m k v = (case m k of None \<Rightarrow> m(k \<mapsto> v) | Some _ \<Rightarrow> m)"

text \<open>The loop over \<open>rows[start_idx:]\<close>; the state is \<open>(oper_to_name, dept_to_name)\<close>.\<close>

fun index_rows ::
  "string list list \<Rightarrow> (string \<rightharpoonup> string) \<times> (string \<rightharpoonup> string) \<Rightarrow> (string \<rightharpoonup> string) \<times> (string \<rightharpoonup> string)" where
  "index_rows [] (oper_to_name, dept_to_name) = (oper_to_name, dept_to_name)"
| "index_rows (r # rs) (oper_to_name, dept_to_name) =
     (if length r < 4 then index_rows rs (oper_to_name, dept_to_name)
      else
        (let dept_code = norm_num (r ! 0);
             dept_name = strip (r ! 1);
             oper_name = strip (r ! 2);
             oper_id = norm_num (r ! 3);
             dept_to_name' = (if dept_code \<noteq> [] then setdefault dept_to_name dept_code dept_name
                              else dept_to_name);
             oper_to_name' = (if oper_id \<noteq> [] then setdefault oper_to_name oper_id oper_name
                              else oper_to_name)
         in index_rows rs (oper_to_name', dept_to_name')))"

text \<open>Row 0 is skipped as a header when column 0 or column 3 of it holds no digit.\<close>

definition start_idx :: "string list list \<Rightarrow> nat" where
  "start_idx rows =
     (case rows of
        [] \<Rightarrow> 0
      | first # _ \<Rightarrow>
          if first \<noteq> [] then
            (let c0 = (if 0 < length first then strip (first ! 0) else []);
                 c3 = (if 3 < length first then strip (first ! 3) else [])
             in if \<not> list_ex isdigit c0 \<or> \<not> list_ex isdigit c3 then 1 else 0)
          else 0)"

text \<open>The argument is \<open>None\<close> when the reference file does not exist, else its rows.\<close>

definition index_active_list ::
  "string list list option \<Rightarrow> (string \<rightharpoonup> string) \<times> (string \<rightharpoonup> string)" where
  "index_active_list file =
     (case file of
        None \<Rightarrow> (Map.empty, Map.empty)
      | Some rows \<Rightarrow>
          if rows = [] then (Map.empty, Map.empty)
          else index_rows (drop (start_idx rows) rows) (Map.empty, Map.empty))"

section \<open>Document Builder: \<open>build_xml\<close>\<close>

text \<open>
  \<open>int(s)\<close> on a \<open>str\<close>, base 10: whitespace around the numeral is dropped (of the
  Latin-1 range, U+0009..U+000D, U+0020, U+0085 and U+00A0; not U+001C..U+001F), one sign
  may lead, and the numeral is a run of ASCII digits in which single underscores may
  stand between two digits. Anything else raises \<open>ValueError\<close>, here \<open>None\<close>. So does a
  numeral of more than \<open>max_str_digits\<close> digits, the interpreter's
  \<open>sys.get_int_max_str_digits()\<close> (4300 by default, 0 for no limit, and absent from
  older interpreters, which is the case 0).
\<close>

definition isdecimal :: "char \<Rightarrow> bool" where
  "isdecimal ch = (let c = (of_char ch :: nat) in 48 \<le> c \<and> c \<le> 57)"

definition int_space :: "char \<Rightarrow> bool" where
  "int_space ch = (let c = (of_char ch :: nat) in (9 \<le> c \<and> c \<le> 13) \<or> c = 32 \<or> c = 133 \<or> c = 160)"

definition digit_value :: "char \<Rightarrow> nat" where
  "digit_value ch = of_char ch - 48"

fun parse_digits :: "string \<Rightarrow> nat \<Rightarrow> nat option" where
  "parse_digits [] acc = Some acc"
| "parse_digits (c # cs) acc =
     (if isdecimal c then parse_digits cs (acc * 10 + digit_value c)
      else if c = CHR ''_'' then
        (case cs of
           [] \<Rightarrow> None
         | d # ds \<Rightarrow> if isdecimal d then parse_digits ds (acc * 10 + digit_value d) else None)
      else None)"

definition py_int :: "nat \<Rightarrow> string \<Rightarrow> int option" where
  "py_int max_str_digits s =
     (let t = rev (dropWhile int_space (rev (dropWhile int_space s)));
          negative = (case t of [] \<Rightarrow> False | c # _ \<Rightarrow> c = CHR ''-'');
          numeral = (case t of [] \<Rightarrow> [] | c # cs \<Rightarrow> if c = CHR ''+'' \<or> c = CHR ''-'' then cs else t)
      in case numeral of
           [] \<Rightarrow> None
         | c # cs \<Rightarrow>
             if \<not> isdecimal c then None
             else (case parse_digits cs (digit_value c) of
                     None \<Rightarrow> None
                   | Some n \<Rightarrow>
                       if 0 < max_str_digits \<and> max_str_digits < length (filter isdecimal numeral)
                       then None
                       else Some (if negative then - int n else int n)))"

text \<open>\<open>str(n)\<close> for an \<open>int\<close>, as an f-string renders it.\<close>

fun nat_str :: "nat \<Rightarrow> string" where
  "nat_str n = (if n < 10 then [char_of (48 + n)] else nat_str (n div 10) @ [char_of (48 + n mod 10)])"

declare nat_str.simps [simp del]

definition int_str :: "int \<Rightarrow> string" where
  "int_str i = (if i < 0 then CHR ''-'' # nat_str (nat (- i)) else nat_str (nat i))"

text \<open>
  The head of the document is one f-string in the source; it is cut here after the opening
  \<open>Table\<close> tag, so that its last row has a name. \<open>created\<close> is the build time as text.
\<close>

definition schema_row :: string where
  \<open>schema_row =
     ''   <Row>\<newline>'' @
     ''    <Cell ss:StyleID="s62"><Data ss:Type="Number">2022</Data></Cell>\<newline>'' @
     ''    <Cell ss:StyleID="s62"><Data ss:Type="String">101:2</Data></Cell>\<newline>'' @
     ''    <Cell ss:StyleID="s62"><Data ss:Type="String">103:4</Data></Cell>\<newline>'' @
     ''   </Row>\<newline>''\<close>

definition xml_head :: "string \<Rightarrow> string" where
  \<open>xml_head created =
     ''<?xml version="1.0"?>\<newline>'' @
     ''<?mso-application progid="Excel.Sheet"?>\<newline>'' @
     ''<Workbook xmlns="urn:schemas-microsoft-com:office:spreadsheet"\<newline>'' @
     '' xmlns:o="urn:schemas-microsoft-com:office:office"\<newline>'' @
     '' xmlns:x="urn:schemas-microsoft-com:office:excel"\<newline>'' @
     '' xmlns:ss="urn:schemas-microsoft-com:office:spreadsheet"\<newline>'' @
     '' xmlns:html="http://www.w3.org/TR/REC-html40">\<newline>'' @
     '' <DocumentProperties xmlns="urn:schemas-microsoft-com:office:office">\<newline>'' @
     ''  <Author>Operator Department Updater</Author>\<newline>'' @
     ''  <LastAuthor>Operator Department Updater</LastAuthor>\<newline>'' @
     ''  <Created>'' @ created @ ''</Created>\<newline>'' @
     ''  <Version>16.00</Version>\<newline>'' @
     '' </DocumentProperties>\<newline>'' @
     '' <ExcelWorkbook xmlns="urn:schemas-microsoft-com:office:excel">\<newline>'' @
     ''  <ProtectStructure>False</ProtectStructure>\<newline>'' @
     ''  <ProtectWindows>False</ProtectWindows>\<newline>'' @
     '' </ExcelWorkbook>\<newline>'' @
     '' <Styles>\<newline>'' @
     ''  <Style ss:ID="Default" ss:Name="Normal">\<newline>'' @
     ''   <Alignment ss:Vertical="Bottom"/>\<newline>'' @
     ''   <Borders/>\<newline>'' @
     ''   <Font ss:FontName="Calibri" x:Family="Swiss" ss:Size="11" ss:Color="#000000"/>\<newline>'' @
     ''   <Interior/>\<newline>'' @
     ''   <NumberFormat/>\<newline>'' @
     ''   <Protection/>\<newline>'' @
     ''  </Style>\<newline>'' @
     ''  <Style ss:ID="s62">\<newline>'' @
     ''   <NumberFormat ss:Format="@"/>\<newline>'' @
     ''  </Style>\<newline>'' @
     '' </Styles>\<newline>'' @
     '' <Worksheet ss:Name="Work Order Center">\<newline>'' @
     ''  <Table ss:ExpandedColumnCount="3" x:FullColumns="1" x:FullRows="1">\<newline>'' @
     schema_row\<close>

definition xml_tail :: string where
  \<open>xml_tail =
     ''  </Table>\<newline>'' @
     ''  <WorksheetOptions xmlns="urn:schemas-microsoft-com:office:excel">\<newline>'' @
     ''   <ProtectObjects>False</ProtectObjects>\<newline>'' @
     ''   <ProtectScenarios>False</ProtectScenarios>\<newline>'' @
     ''  </WorksheetOptions>\<newline>'' @
     '' </Worksheet>\<newline>'' @
     ''</Workbook>\<newline>''\<close>

definition data_row :: "int \<Rightarrow> int \<Rightarrow> string" where
  \<open>data_row oper newd =
     ''   <Row>\<newline>'' @
     ''    <Cell><Data ss:Type="String">[u:1]</Data></Cell>\<newline>'' @
     ''    <Cell><Data ss:Type="Number">'' @ int_str oper @ ''</Data></Cell>\<newline>'' @
     ''    <Cell><Data ss:Type="Number">'' @ int_str newd @ ''</Data></Cell>\<newline>'' @
     ''   </Row>\<newline>''\<close>

text \<open>
  The \<open>try\<close> of the loop body: \<open>rec[REQ_OPER]\<close>, \<open>int\<close> of it, \<open>rec[REQ_NEW]\<close>, \<open>int\<close> of
  it, in that order; \<open>None\<close> when any of them raises (\<open>except Exception: continue\<close>).
\<close>

definition record_ints :: "nat \<Rightarrow> (string \<rightharpoonup> string) \<Rightarrow> (int \<times> int) option" where
  "record_ints max_str_digits rec =
     (case rec REQ_OPER of
        None \<Rightarrow> None
      | Some so \<Rightarrow>
          (case py_int max_str_digits so of
             None \<Rightarrow> None
           | Some oper \<Rightarrow>
               (case rec REQ_NEW of
                  None \<Rightarrow> None
                | Some sn \<Rightarrow>
                    (case py_int max_str_digits sn of
                       None \<Rightarrow> None
                     | Some newd \<Rightarrow> Some (oper, newd)))))"

fun rows_xml_loop :: "nat \<Rightarrow> (string \<rightharpoonup> string) list \<Rightarrow> string list \<Rightarrow> string list" where
  "rows_xml_loop max_str_digits [] rows_xml = rows_xml"
| "rows_xml_loop max_str_digits (rec # recs) rows_xml =
     (case record_ints max_str_digits rec of
        None \<Rightarrow> rows_xml_loop max_str_digits recs rows_xml
      | Some (oper, newd) \<Rightarrow>
          rows_xml_loop max_str_digits recs (rows_xml @ [data_row oper newd]))"

definition build_xml :: "nat \<Rightarrow> string \<Rightarrow> (string \<rightharpoonup> string) list \<Rightarrow> string" where
  "build_xml max_str_digits created records =
     xml_head created @ concat (rows_xml_loop max_str_digits records []) @ xml_tail"

section \<open>Retention Manager: \<open>remove_old_files\<close>\<close>

text \<open>
  A directory entry, as far as the program looks at it: its name, what \<open>p.stat().st_mtime\<close>
  gives (\<open>None\<close> when \<open>stat\<close> raises) and whether \<open>p.unlink()\<close> succeeds. A folder is the
  list of its entries, \<open>None\<close> when it does not exist. Times are seconds since the epoch;
  the source computes with floats, the model with reals. \<open>folder.glob(pattern)\<close> visits
  the entries whose name matches the pattern; the matching itself is the library's and is
  a parameter, \<open>matches\<close>.
\<close>

record dir_entry =
  fname :: string
  st_mtime :: "real option"
  unlink_ok :: bool

text \<open>
  The loop of \<open>remove_old_files\<close>, returning the entries left in the folder and the
  counter. Both exceptions (of \<open>stat\<close> and of \<open>unlink\<close>) are swallowed by the
  \<open>except Exception: pass\<close> of the body, and the loop goes on.
\<close>

fun remove_loop :: "(string \<Rightarrow> bool) \<Rightarrow> real \<Rightarrow> dir_entry list \<Rightarrow> nat \<Rightarrow> dir_entry list \<times> nat" where
  "remove_loop matches cutoff [] removed = ([], removed)"
| "remove_loop matches cutoff (p # ps) removed =
     (if \<not> matches (fname p) then
        (case remove_loop matches cutoff ps removed of (left, n) \<Rightarrow> (p # left, n))
      else case st_mtime p of
        None \<Rightarrow> (case remove_loop matches cutoff ps removed of (left, n) \<Rightarrow> (p # left, n))
      | Some m \<Rightarrow>
          if m < cutoff then
            (if unlink_ok p then remove_loop matches cutoff ps (removed + 1)
             else (case remove_loop matches cutoff ps removed of (left, n) \<Rightarrow> (p # left, n)))
          else (case remove_loop matches cutoff ps removed of (left, n) \<Rightarrow> (p # left, n)))"

definition remove_old_files ::
  "real \<Rightarrow> dir_entry list option \<Rightarrow> (string \<Rightarrow> bool) \<Rightarrow> int \<Rightarrow> dir_entry list option \<times> nat" where
  "remove_old_files now folder matches retain_days =
     (case folder of
        None \<Rightarrow> (None, 0)
      | Some entries \<Rightarrow>
          if retain_days \<le> 0 then (Some entries, 0)
          else
            (let cutoff = now - real_of_int (retain_days * 86400) in
             case remove_loop matches cutoff entries 0 of (left, removed) \<Rightarrow> (Some left, removed)))"


section \<open>External loader log: \<open>find_latest_txt_after\<close> and the fallback\<close>

text \<open>
  The loop of \<open>find_latest_txt_after\<close> over \<open>folder.glob("*.txt")\<close>, with the state
  \<open>(newest, newest_mtime)\<close>; a failing \<open>stat\<close> is swallowed.
\<close>

fun latest_loop ::
  "(string \<Rightarrow> bool) \<Rightarrow> real \<Rightarrow> dir_entry list \<Rightarrow> dir_entry option \<times> real \<Rightarrow> dir_entry option" where
  "latest_loop matches epoch [] (newest, newest_mtime) = newest"
| "latest_loop matches epoch (p # ps) (newest, newest_mtime) =
     (if \<not> matches (fname p) then latest_loop matches epoch ps (newest, newest_mtime)
      else case st_mtime p of
        None \<Rightarrow> latest_loop matches epoch ps (newest, newest_mtime)
      | Some m \<Rightarrow>
          if epoch \<le> m \<and> newest_mtime < m then latest_loop matches epoch ps (Some p, m)
          else latest_loop matches epoch ps (newest, newest_mtime))"

definition find_latest_txt_after ::
  "(string \<Rightarrow> bool) \<Rightarrow> dir_entry list option \<Rightarrow> real \<Rightarrow> dir_entry option" where
  "find_latest_txt_after matches folder epoch =
     (case folder of
        None \<Rightarrow> None
      | Some entries \<Rightarrow> latest_loop matches epoch entries (None, 0))"

text \<open>
  \<open>max(iterable, key=lambda p: p.stat().st_mtime)\<close>: \<open>ValueError\<close> on an empty iterable
  (the wording of its message depends on the interpreter), the exception of \<open>stat\<close> when
  a key cannot be computed, else the first entry of greatest key.
\<close>

definition max_empty :: error where
  "max_empty = ValueError ''max() arg is an empty sequence''"

fun max_loop :: "dir_entry list \<Rightarrow> dir_entry \<times> real \<Rightarrow> error + dir_entry" where
  "max_loop [] (best, best_key) = Inr best"
| "max_loop (p # ps) (best, best_key) =
     (case st_mtime p of
        None \<Rightarrow> Inl (OSError (fname p))
      | Some m \<Rightarrow> if best_key < m then max_loop ps (p, m) else max_loop ps (best, best_key))"

definition max_by_mtime :: "dir_entry list \<Rightarrow> error + dir_entry" where
  "max_by_mtime ps =
     (case ps of
        [] \<Rightarrow> Inl max_empty
      | p # rest \<Rightarrow>
          (case st_mtime p of
             None \<Rightarrow> Inl (OSError (fname p))
           | Some m \<Rightarrow> max_loop rest (p, m)))"

text \<open>
  \<^verbatim>\<open>
  fa_txt = find_latest_txt_after(fa_txt_folder, start_epoch) or (
      max(fa_txt_folder.glob("*.txt"), key=lambda p: p.stat().st_mtime)
      if fa_txt_folder.exists() else None)
  \<close>
  A \<open>Path\<close> is never falsy, so the right operand is evaluated exactly when the left one is
  \<open>None\<close>.
\<close>

definition locate_fa_txt ::
  "(string \<Rightarrow> bool) \<Rightarrow> dir_entry list option \<Rightarrow> real \<Rightarrow> error + dir_entry option" where
  "locate_fa_txt matches folder epoch =
     (case find_latest_txt_after matches folder epoch of
        Some p \<Rightarrow> Inr (Some p)
      | None \<Rightarrow>
          (case folder of
             None \<Rightarrow> Inr None
           | Some entries \<Rightarrow>
               (case max_by_mtime (filter (\<lambda>p. matches (fname p)) entries) of
                  Inl e \<Rightarrow> Inl e
                | Inr p \<Rightarrow> Inr (Some p))))"

section \<open>Pipeline: \<open>main\<close>\<close>

text \<open>The ways \<open>subprocess.run(cmd, ..., timeout=180)\<close> ends.\<close>

datatype loader_outcome = Returned int | TimeoutExpired | Raised string

text \<open>
  Everything outside the program that a run depends on. \<open>setup_error\<close> is an exception
  raised before step 1 (locating and loading the configuration, creating the managed
  folders, opening the run log, reading the options); \<open>csv_rows\<close> is what reading the
  copied input with \<open>csv.reader\<close> gives, \<open>Inl\<close> the message of the exception it raises;
  \<open>active_list\<close> the same for the reference file, \<open>None\<close> when it does not exist;
  \<open>glob_match pattern name\<close> is the library's pattern matching.
\<close>

record env =
  setup_error :: "error option"
  retain_days :: int
  assets_input_exists :: bool
  copy_error :: "string option"
  input_dir :: "dir_entry list option"
  now_inputs :: real
  dest_csv_exists :: bool
  csv_rows :: "string + string list list"
  max_str_digits :: nat
  created_utc :: string
  xml_name :: string
  xml_write_error :: "string option"
  runfile_write_error :: "string option"
  exe_exists :: bool
  start_epoch :: real
  loader :: loader_outcome
  active_list :: "error + string list list option"
  fa_txt_folder :: "dir_entry list option"
  fa_txt_read_error :: "error option"
  email_save_error :: "string option"
  email_send_error :: "string option"
  logs_dir :: "dir_entry list option"
  now_logs :: real
  fallback_log_writable :: bool
  glob_match :: "string \<Rightarrow> string \<Rightarrow> bool"

text \<open>
  The run context (\<open>lines\<close>, \<open>subject_status\<close>) together with the local variables of
  \<open>main\<close> that later steps read and the effects of the run: the document written, whether
  the HTML report was saved, the subject of the email handed to the mailer (its status and
  its record count; the timestamp and the fixed text are left out), whether it was sent,
  whether the logs were pruned and the loader's log appended, and the exception that
  reached the top-level handler with whether its \<open>[FATAL]\<close> line could be written.
\<close>

record run =
  lines :: "string list"
  subject_status :: string
  records :: "(string \<rightharpoonup> string) list"
  xml_generated :: bool
  xml_document :: "string option"
  fa_result :: string
  email_saved :: bool
  email_subject :: "(string \<times> nat) option"
  email_sent :: bool
  logs_pruned :: bool
  loader_log_appended :: bool
  fatal :: "error option"
  fatal_logged :: bool

definition RunContext :: run where
  "RunContext = \<lparr>lines = [], subject_status = ''OK'', records = [], xml_generated = False,
     xml_document = None, fa_result = ''FAILED (did not run)'', email_saved = False,
     email_subject = None, email_sent = False, logs_pruned = False,
     loader_log_appended = False, fatal = None, fatal_logged = False\<rparr>"

text \<open>\<open>ctx.add(msg)\<close>; the write to the run log is best effort and changes nothing here.\<close>

definition add :: "run \<Rightarrow> string \<Rightarrow> run" where
  "add ctx msg = ctx\<lparr>lines := lines ctx @ [msg]\<rparr>"

text \<open>\<open>str(e)\<close> of a \<open>KeyError\<close> is the \<open>repr\<close> of the key.\<close>

fun error_str :: "error \<Rightarrow> string" where
  "error_str (KeyError k) = [CHR 0x27] @ k @ [CHR 0x27]"
| "error_str (ValueError m) = m"
| "error_str (OSError m) = m"

text \<open>Step 1: copy the input.\<close>

definition copy_input :: "env \<Rightarrow> run \<Rightarrow> run" where
  "copy_input e ctx =
     (if assets_input_exists e then
        (case copy_error e of
           None \<Rightarrow> add ctx ''Input CSV copied to local input folder''
         | Some msg \<Rightarrow> (add ctx (''Input copy failed: '' @ msg))\<lparr>subject_status := ''ISSUE''\<rparr>)
      else (add ctx ''Input source not found'')\<lparr>subject_status := ''ISSUE''\<rparr>)"

definition prune_inputs :: "env \<Rightarrow> run \<Rightarrow> run" where
  "prune_inputs e ctx =
     (case remove_old_files (now_inputs e) (input_dir e)
             (glob_match e ''UnmatchedDepartment_*.csv'') (retain_days e) of
        (left, removed_inputs) \<Rightarrow>
          if removed_inputs \<noteq> 0 then
            add ctx (''Removed old input files older than '' @ int_str (retain_days e) @
                     '' days: '' @ nat_str removed_inputs)
          else ctx)"

text \<open>Step 2: parse the input. \<open>dest_csv\<close> is set exactly when the source existed.\<close>

definition parse_input :: "env \<Rightarrow> run \<Rightarrow> run" where
  "parse_input e ctx =
     (if assets_input_exists e \<and> dest_csv_exists e then
        (case csv_rows e of
           Inl msg \<Rightarrow> (add ctx (''CSV parse failed: '' @ msg))\<lparr>subject_status := ''ISSUE''\<rparr>
         | Inr rows \<Rightarrow>
             (case read_unmatched rows of
                Inl err \<Rightarrow>
                  (add ctx (''CSV parse failed: '' @ error_str err))\<lparr>subject_status := ''ISSUE''\<rparr>
              | Inr recs \<Rightarrow>
                  (let ctx' = (add ctx (''Parsed '' @ nat_str (length recs) @ '' record(s) from CSV''))
                                \<lparr>records := recs\<rparr>
                   in if recs = [] then ctx'\<lparr>subject_status := ''ISSUE''\<rparr> else ctx')))
      else ctx)"

text \<open>Step 3: build and write the document.\<close>

definition generate_xml :: "env \<Rightarrow> run \<Rightarrow> run" where
  "generate_xml e ctx =
     (if records ctx \<noteq> [] then
        (case xml_write_error e of
           None \<Rightarrow>
             (add ctx (''XML generated: '' @ xml_name e))
               \<lparr>xml_generated := True,
                xml_document := Some (build_xml (max_str_digits e) (created_utc e) (records ctx))\<rparr>
         | Some msg \<Rightarrow>
             (add ctx (''XML generation failed: '' @ msg))\<lparr>subject_status := ''ISSUE''\<rparr>)
      else (add ctx ''No records to write into XML'')\<lparr>subject_status := ''ISSUE''\<rparr>)"

text \<open>Step 4: the runfile.\<close>

definition write_runfile :: "env \<Rightarrow> run \<Rightarrow> run" where
  "write_runfile e ctx =
     (case runfile_write_error e of
        None \<Rightarrow> add ctx ''Data loader runfile prepared''
      | Some msg \<Rightarrow> add ctx (''Runfile write failed: '' @ msg))"

text \<open>Step 5: run the loader. \<open>loader_result\<close> is the value of \<open>fa_result\<close> after the branches.\<close>

definition loader_result :: "bool \<Rightarrow> bool \<Rightarrow> loader_outcome \<Rightarrow> string" where
  "loader_result xml_gen exe outcome =
     (if xml_gen \<and> exe then
        (case outcome of
           Returned returncode \<Rightarrow>
             if returncode = 0 then ''SUCCESS''
             else ''FAILED (exit code '' @ int_str returncode @ '')''
         | TimeoutExpired \<Rightarrow> ''FAILED (timeout)''
         | Raised msg \<Rightarrow> ''FAILED (exception: '' @ msg @ '')'')
      else if \<not> xml_gen then ''SKIPPED (no XML)''
      else ''FAILED (FADATALOADER.EXE not found)'')"

definition run_loader :: "env \<Rightarrow> run \<Rightarrow> run" where
  "run_loader e ctx =
     (let result = loader_result (xml_generated ctx) (exe_exists e) (loader e);
          ctx' = ctx\<lparr>fa_result := result,
                     subject_status := (if startswith result ''SUCCESS'' then ''SUCCESS'' else ''ISSUE'')\<rparr>
      in add ctx' (''Data loader: '' @ result))"

definition steps_1_to_4 :: "env \<Rightarrow> run" where
  "steps_1_to_4 e =
     write_runfile e (generate_xml e (parse_input e (prune_inputs e (copy_input e RunContext))))"

text \<open>
  Steps 6 and 7 add no line; they raise or deliver the loader's log file. Reading a
  reference file that exists may raise; so may reading the log file found.
\<close>

definition locate_log :: "env \<Rightarrow> error + dir_entry option" where
  "locate_log e =
     (case active_list e of
        Inl err \<Rightarrow> Inl err
      | Inr reference \<Rightarrow>
          (case locate_fa_txt (glob_match e ''*.txt'') (fa_txt_folder e) (start_epoch e) of
             Inl err \<Rightarrow> Inl err
           | Inr None \<Rightarrow> Inr None
           | Inr (Some p) \<Rightarrow>
               (case fa_txt_read_error e of
                  None \<Rightarrow> Inr (Some p)
                | Some err \<Rightarrow> Inl err)))"

text \<open>
  Step 8: save the report and hand it to the mailer. The HTML body is not modelled, only
  whether it was saved and sent; \<open>ensure_dir(emails_dir)\<close> repeats a call that succeeded
  during setup. \<open>email_send_error\<close> is the second component of what \<open>send_email_html\<close>
  returns, \<open>None\<close> when the message was sent.
\<close>

definition send_report :: "env \<Rightarrow> run \<Rightarrow> run" where
  "send_report e ctx =
     (let ctx1 = (case email_save_error e of
                    None \<Rightarrow> (add ctx ''Email report generated and saved'')\<lparr>email_saved := True\<rparr>
                  | Some msg \<Rightarrow> add ctx (''Email HTML save failed: '' @ msg));
          ctx2 = ctx1\<lparr>email_subject := Some (subject_status ctx1, length (records ctx1))\<rparr>
      in case email_send_error e of
           None \<Rightarrow> (add ctx2 ''Email sent'')\<lparr>email_sent := True\<rparr>
         | Some err \<Rightarrow> add ctx2 (''Email send failed: '' @ err))"

text \<open>Step 9: prune the logs, append the loader's log.\<close>

definition prune_logs :: "env \<Rightarrow> dir_entry option \<Rightarrow> run \<Rightarrow> run" where
  "prune_logs e fa_txt ctx =
     (case remove_old_files (now_logs e) (logs_dir e) (glob_match e ''*.txt'') (retain_days e) of
        (left, removed_logs) \<Rightarrow>
          (let ctx1 = (if removed_logs \<noteq> 0 then
                         add ctx (''Removed old logs older than '' @ int_str (retain_days e) @
                                  '' days: '' @ nat_str removed_logs)
                       else ctx)
           in ctx1\<lparr>logs_pruned := True, loader_log_appended := (fa_txt \<noteq> None)\<rparr>))"

text \<open>The top-level \<open>except Exception\<close>: one attempt to write the \<open>[FATAL]\<close> line.\<close>

definition top_level_handler :: "env \<Rightarrow> error \<Rightarrow> run \<Rightarrow> run" where
  "top_level_handler e err ctx = ctx\<lparr>fatal := Some err, fatal_logged := fallback_log_writable e\<rparr>"

definition main :: "env \<Rightarrow> run" where
  "main e =
     (case setup_error e of
        Some err \<Rightarrow> top_level_handler e err RunContext
      | None \<Rightarrow>
          (let ctx = run_loader e (steps_1_to_4 e) in
           case locate_log e of
             Inl err \<Rightarrow> top_level_handler e err ctx
           | Inr fa_txt \<Rightarrow> prune_logs e fa_txt (send_report e ctx)))"

text \<open>The effects of a run that only the steps after the loader produce.\<close>

definition effects :: "run \<Rightarrow> bool \<times> (string \<times> nat) option \<times> bool \<times> bool \<times> bool" where
  "effects ctx = (email_saved ctx, email_subject ctx, email_sent ctx, logs_pruned ctx,
                  loader_log_appended ctx)"

section \<open>Two runs\<close>

text \<open>
  \<open>env0\<close>: the copy of the input fails but leaves a readable file of one record, the
  document is written, the loader exits with 0, and the loader has no log folder.
  \<open>env1\<close>: the same, with a log folder that holds one file, not a \<open>.txt\<close>.
\<close>

definition env0 :: env where
  "env0 = \<lparr>setup_error = None, retain_days = 30, assets_input_exists = True,
     copy_error = Some ''disk full'', input_dir = Some [], now_inputs = 8640000,
     dest_csv_exists = True, csv_rows = Inr [[''oper_no'', ''dept''], [''0042'', '' 007'']],
     max_str_digits = 4300, created_utc = ''2026-01-01T00:00:00Z'',
     xml_name = ''2026-01-01 update operator depts.xml'', xml_write_error = None,
     runfile_write_error = None, exe_exists = True, start_epoch = 8640000, loader = Returned 0,
     active_list = Inr None, fa_txt_folder = None, fa_txt_read_error = None,
     email_save_error = None, email_send_error = None, logs_dir = Some [], now_logs = 8640100,
     fallback_log_writable = True,
     glob_match = (\<lambda>pattern name. pattern = ''*.txt'' \<and> drop (length name - 4) name = ''.txt'')\<rparr>"

definition env1 :: env where
  "env1 = env0\<lparr>fa_txt_folder := Some [\<lparr>fname = ''old.log'', st_mtime = Some 1, unlink_ok = True\<rparr>]\<rparr>"

section \<open>Facts about the string helpers\<close>

lemma isdigit_not_isspace: "isdigit ch \<Longrightarrow> \<not> isspace ch"
  unfolding isdigit_def isspace_def Let_def by presburger

lemma lstrip_ws_idem: "lstrip_ws (lstrip_ws s) = lstrip_ws s"
  by (simp add: lstrip_ws_def)

lemma rstrip_ws_idem: "rstrip_ws (rstrip_ws s) = rstrip_ws s"
  by (simp add: rstrip_ws_def)

lemma rstrip_ws_Cons_keep: "\<not> isspace x \<Longrightarrow> rstrip_ws (x # xs) = x # rstrip_ws xs"
  by (simp add: rstrip_ws_def dropWhile_append)

lemma lstrip_ws_head: "lstrip_ws s = [] \<or> \<not> isspace (hd (lstrip_ws s))"
  using hd_dropWhile [of isspace s] by (auto simp: lstrip_ws_def)

lemma lstrip_ws_rstrip_ws:
  assumes "x = [] \<or> \<not> isspace (hd x)"
  shows "lstrip_ws (rstrip_ws x) = rstrip_ws x"
proof (cases x)
  case Nil
  then show ?thesis by (simp add: lstrip_ws_def rstrip_ws_def)
next
  case (Cons a xs)
  with assms have "\<not> isspace a" by simp
  then show ?thesis
    by (simp add: Cons rstrip_ws_Cons_keep lstrip_ws_def)
qed

lemma strip_idem: "strip (strip s) = strip s"
  by (simp add: strip_def lstrip_ws_rstrip_ws [OF lstrip_ws_head] rstrip_ws_idem)

lemma set_rstrip_ws: "set (rstrip_ws s) \<subseteq> set s"
proof
  fix x assume "x \<in> set (rstrip_ws s)"
  then have "x \<in> set (dropWhile isspace (rev s))" by (simp add: rstrip_ws_def)
  then have "x \<in> set (rev s)" by (rule set_dropWhileD)
  then show "x \<in> set s" by simp
qed

lemma set_lstrip_ws: "set (lstrip_ws s) \<subseteq> set s"
proof
  fix x assume "x \<in> set (lstrip_ws s)"
  then show "x \<in> set s" unfolding lstrip_ws_def by (rule set_dropWhileD)
qed

lemma set_strip: "set (strip s) \<subseteq> set s"
  unfolding strip_def using set_rstrip_ws [of "lstrip_ws s"] set_lstrip_ws [of s] by blast

lemma filter_isdigit_strip: "filter isdigit s = [] \<Longrightarrow> filter isdigit (strip s) = []"
  using set_strip [of s] unfolding filter_empty_conv by blast

lemma lstrip_zero_digits:
  "filter isdigit (lstrip_zero (filter isdigit s)) = lstrip_zero (filter isdigit s)"
proof -
  have "isdigit ch" if "ch \<in> set (lstrip_zero (filter isdigit s))" for ch
  proof -
    from that have "ch \<in> set (filter isdigit s)"
      unfolding lstrip_zero_def by (rule set_dropWhileD)
    then show ?thesis by simp
  qed
  then show ?thesis by (simp add: filter_id_conv)
qed

lemma lstrip_zero_idem: "lstrip_zero (lstrip_zero t) = lstrip_zero t"
  by (simp add: lstrip_zero_def)

lemma norm_num_zero: "norm_num ''0'' = ''0''"
  by (simp add: norm_num_def isdigit_def lstrip_zero_def)

lemma strip_Nil_iff: "strip s = [] \<longleftrightarrow> (\<forall>ch\<in>set s. isspace ch)"
proof
  assume e: "strip s = []"
  have "lstrip_ws s = []"
  proof (rule ccontr)
    assume ne: "lstrip_ws s \<noteq> []"
    then obtain a xs where ax: "lstrip_ws s = a # xs" by (cases "lstrip_ws s") auto
    with lstrip_ws_head [of s] have "\<not> isspace a" by simp
    then have "rstrip_ws (a # xs) = a # rstrip_ws xs" by (rule rstrip_ws_Cons_keep)
    with e ax show False by (simp add: strip_def)
  qed
  then show "\<forall>ch\<in>set s. isspace ch"
    by (simp add: lstrip_ws_def dropWhile_eq_Nil_conv)
next
  assume "\<forall>ch\<in>set s. isspace ch"
  then have "lstrip_ws s = []" by (simp add: lstrip_ws_def dropWhile_eq_Nil_conv)
  then show "strip s = []" by (simp add: strip_def rstrip_ws_def)
qed

section \<open>Claims about the normalizer\<close>

text \<open>
  C4 (as amended): for every string \<open>s\<close> holding at least one character that is not
  whitespace, \<open>norm_num s\<close> is non-empty: it is the trimmed \<open>s\<close> when \<open>s\<close> holds no digit,
  otherwise the digits of \<open>s\<close> without their leading zeros, and \<open>"0"\<close> when nothing but
  zeros is left.
\<close>

theorem norm_num_nonempty:
  assumes "\<exists>ch\<in>set s. \<not> isspace ch"
  shows "norm_num s \<noteq> [] \<and>
         norm_num s =
           (if filter isdigit s = [] then strip s
            else if lstrip_zero (filter isdigit s) = [] then ''0''
            else lstrip_zero (filter isdigit s))"
proof -
  from assms have "strip s \<noteq> []" by (simp add: strip_Nil_iff)
  then show ?thesis by (simp add: norm_num_def Let_def)
qed

theorem norm_num_nonempty_witness:
  "(\<exists>ch\<in>set '' 007''. \<not> isspace ch) \<and> norm_num '' 007'' = ''7'' \<and> norm_num '' 007'' \<noteq> []"
proof -
  have h: "\<exists>ch\<in>set '' 007''. \<not> isspace ch" by (simp add: isspace_def)
  have e: "norm_num '' 007'' = ''7''" by (simp add: norm_num_def isdigit_def lstrip_zero_def)
  from norm_num_nonempty [OF h] h e show ?thesis by simp
qed

text \<open>
  A non-empty string of whitespace alone holds no digit, so it is trimmed to the empty string.
\<close>

theorem norm_num_blank_counterexample:
  "'' '' \<noteq> [] \<and> norm_num '' '' = []"
  by (simp add: norm_num_def isdigit_def isspace_def strip_def lstrip_ws_def rstrip_ws_def)


text \<open>
  C8: \<open>norm_num\<close> is idempotent: normalizing an already normalized string changes nothing.
\<close>

theorem norm_num_idempotent: "norm_num (norm_num s) = norm_num s"
proof (cases "filter isdigit s = []")
  case True
  then have "norm_num s = strip s" by (simp add: norm_num_def)
  moreover have "norm_num (strip s) = strip (strip s)"
    using filter_isdigit_strip [OF True] by (simp add: norm_num_def)
  ultimately show ?thesis by (simp add: strip_idem)
next
  case False
  show ?thesis
  proof (cases "lstrip_zero (filter isdigit s) = []")
    case True
    with False have "norm_num s = ''0''" by (simp add: norm_num_def)
    then show ?thesis by (simp add: norm_num_zero)
  next
    case nonzero: False
    with False have eq: "norm_num s = lstrip_zero (filter isdigit s)"
      by (simp add: norm_num_def)
    have "norm_num (lstrip_zero (filter isdigit s)) = lstrip_zero (filter isdigit s)"
      using nonzero by (simp add: norm_num_def lstrip_zero_digits lstrip_zero_idem)
    with eq show ?thesis by simp
  qed
qed

section \<open>Facts about the record parser\<close>

lemma role_names_distinct:
  "REQ_OPER \<noteq> REQ_NEW" "REQ_OPER \<noteq> OPT_OLD" "REQ_NEW \<noteq> OPT_OLD"
  "REQ_NEW \<noteq> REQ_OPER" "OPT_OLD \<noteq> REQ_OPER" "OPT_OLD \<noteq> REQ_NEW"
  by (simp_all add: REQ_OPER_def REQ_NEW_def OPT_OLD_def)

lemma match_header_oper:
  "match_header i h m REQ_OPER = (if h \<in> set oper_names then Some i else m REQ_OPER)"
  by (simp add: match_header_def Let_def role_names_distinct)

lemma match_header_new:
  "match_header i h m REQ_NEW = (if h \<in> set new_names then Some i else m REQ_NEW)"
  by (simp add: match_header_def Let_def role_names_distinct)

lemma match_header_old:
  "match_header i h m OPT_OLD = (if h \<in> set old_names then Some i else m OPT_OLD)"
  by (simp add: match_header_def Let_def role_names_distinct)

lemma detect_header_append:
  "detect_header k (xs @ ys) m = detect_header (k + length xs) ys (detect_header k xs m)"
  by (induction xs arbitrary: k m) simp_all

lemma detect_header_unmatched:
  assumes step: "\<And>i h m. match_header i h m role = (if h \<in> S then Some i else m role)"
    and none: "\<forall>h\<in>set hs. h \<notin> S"
  shows "detect_header k hs m role = m role"
  using none by (induction hs arbitrary: k m) (simp_all add: step)

lemma detect_header_rightmost:
  assumes step: "\<And>i h m. match_header i h m role = (if h \<in> S then Some i else m role)"
    and i: "i < length hs" and hit: "hs ! i \<in> S"
    and later: "\<forall>j. i < j \<and> j < length hs \<longrightarrow> hs ! j \<notin> S"
  shows "detect_header k hs m role = Some (k + i)"
proof -
  have split: "hs = take i hs @ (hs ! i # drop (Suc i) hs)"
    using i by (simp add: id_take_nth_drop [symmetric])
  have none: "\<forall>h\<in>set (drop (Suc i) hs). h \<notin> S"
  proof
    fix h assume "h \<in> set (drop (Suc i) hs)"
    then obtain n where n: "n < length (drop (Suc i) hs)" "h = drop (Suc i) hs ! n"
      by (auto simp: in_set_conv_nth)
    then have "h = hs ! (Suc i + n)" "Suc i + n < length hs" by auto
    with later show "h \<notin> S" by simp
  qed
  have "detect_header k hs m role =
          detect_header k (take i hs @ (hs ! i # drop (Suc i) hs)) m role"
    using split by simp
  also have "\<dots> = detect_header (Suc (k + i)) (drop (Suc i) hs)
                      (match_header (k + i) (hs ! i) (detect_header k (take i hs) m)) role"
    using i by (simp add: detect_header_append min_def)
  also have "\<dots> = match_header (k + i) (hs ! i) (detect_header k (take i hs) m) role"
    by (rule detect_header_unmatched [OF step none])
  also have "\<dots> = Some (k + i)"
    using hit by (simp add: step)
  finally show ?thesis .
qed


lemma header_low_mixed_case: "header_low [''ID'', ''Dept'', '' Oper No'', ''x''] = [''id'', ''dept'', ''oper no'', ''x'']"
  by code_simp






section \<open>Claims about the record parser\<close>

text \<open>
  C10: in header detection, when several header columns match the synonyms of one role
  (operator id, new department or old department), the role is mapped to the rightmost of
  them, each later match overwriting the earlier one; and this is the column that is used
  whenever both required roles were matched by name.
\<close>

theorem header_rightmost_match_wins:
  assumes role: "(role, names) \<in> {(REQ_OPER, oper_names), (REQ_NEW, new_names), (OPT_OLD, old_names)}"
    and i: "i < length row0"
    and hit: "header_low row0 ! i \<in> set names"
    and later: "\<forall>j. i < j \<and> j < length row0 \<longrightarrow> header_low row0 ! j \<notin> set names"
  shows "detect_header 0 (header_low row0) Map.empty role = Some i \<and>
         (detect_header 0 (header_low row0) Map.empty REQ_OPER \<noteq> None \<and>
          detect_header 0 (header_low row0) Map.empty REQ_NEW \<noteq> None \<longrightarrow>
          column_map row0 role = Some i)"
proof -
  have step: "match_header k h m role = (if h \<in> set names then Some k else m role)" for k h m
    using role by (auto simp: match_header_oper match_header_new match_header_old)
  have len: "length (header_low row0) = length row0" by (simp add: header_low_def)
  have "detect_header 0 (header_low row0) Map.empty role = Some (0 + i)"
    using i hit later by (intro detect_header_rightmost [where S = "set names"] step) (simp_all add: len)
  then show ?thesis by (simp add: column_map_def Let_def)
qed

text \<open>
  Both \<open>ID\<close> (column 0) and \<open>Oper No\<close> (column 2) name the operator id: column 2 is used.
\<close>

theorem header_rightmost_match_wins_witness:
  "column_map [''ID'', ''Dept'', '' Oper No'', ''x''] REQ_OPER = Some 2 \<and>
   header_low [''ID'', ''Dept'', '' Oper No'', ''x''] ! 0 \<in> set oper_names \<and>
   header_low [''ID'', ''Dept'', '' Oper No'', ''x''] ! 2 \<in> set oper_names"
proof -
  let ?row = "[''ID'', ''Dept'', '' Oper No'', ''x'']"
  have hl: "header_low ?row = [''id'', ''dept'', ''oper no'', ''x'']"
    by (rule header_low_mixed_case)
  have a: "(REQ_OPER, oper_names) \<in> {(REQ_OPER, oper_names), (REQ_NEW, new_names), (OPT_OLD, old_names)}"
    by simp
  have b: "2 < length ?row" by simp
  have c: "header_low ?row ! 2 \<in> set oper_names" by (simp add: hl oper_names_def)
  have d: "\<forall>j. 2 < j \<and> j < length ?row \<longrightarrow> header_low ?row ! j \<notin> set oper_names"
  proof (intro allI impI)
    fix j assume "2 < j \<and> j < length ?row"
    then have "j = 3" by simp
    then show "header_low ?row ! j \<notin> set oper_names" by (simp add: hl oper_names_def)
  qed
  have e: "detect_header 0 (header_low ?row) Map.empty REQ_OPER \<noteq> None"
    by (simp add: hl match_header_oper oper_names_def)
  have f: "detect_header 0 (header_low ?row) Map.empty REQ_NEW \<noteq> None"
    by (simp add: hl match_header_new new_names_def)
  have g: "header_low ?row ! 0 \<in> set oper_names" by (simp add: hl oper_names_def)
  from header_rightmost_match_wins [OF a b c d] e f c g show ?thesis by simp
qed



section \<open>Facts about the reference indexer\<close>

lemma setdefault_apply:
  "setdefault m k v k' = (if k' = k \<and> m k = None then Some v else m k')"
  by (simp add: setdefault_def split: option.splits)

lemma index_rows_dept:
  "snd (index_rows ds (o2n, d2n)) k =
     (case d2n k of
        Some v \<Rightarrow> Some v
      | None \<Rightarrow>
          if k = [] then None
          else map_option (\<lambda>r. strip (r ! 1))
                 (find (\<lambda>r. 4 \<le> length r \<and> norm_num (r ! 0) = k) ds))"
proof (induction ds arbitrary: o2n d2n)
  case Nil
  then show ?case by (simp split: option.splits)
next
  case (Cons r ds)
  show ?case
  proof (cases "length r < 4")
    case True
    then show ?thesis by (simp add: Cons.IH split: option.splits)
  next
    case False
    then show ?thesis
      by (auto simp: Cons.IH Let_def setdefault_apply split: option.splits)
  qed
qed

lemma index_rows_oper:
  "fst (index_rows ds (o2n, d2n)) k =
     (case o2n k of
        Some v \<Rightarrow> Some v
      | None \<Rightarrow>
          if k = [] then None
          else map_option (\<lambda>r. strip (r ! 2))
                 (find (\<lambda>r. 4 \<le> length r \<and> norm_num (r ! 3) = k) ds))"
proof (induction ds arbitrary: o2n d2n)
  case Nil
  then show ?case by (simp split: option.splits)
next
  case (Cons r ds)
  show ?case
  proof (cases "length r < 4")
    case True
    then show ?thesis by (simp add: Cons.IH split: option.splits)
  next
    case False
    then show ?thesis
      by (auto simp: Cons.IH Let_def setdefault_apply split: option.splits)
  qed
qed


section \<open>Claims about the reference indexer\<close>

text \<open>
  C6: both reference mappings are built first-write-wins. The department name stored under
  a key is that of the first data row, in file order, that has at least four columns and
  whose normalized column 0 is the key; the operator name stored under a key is that of the
  first such row whose normalized column 3 is the key. Later rows with the same key are
  ignored, and nothing is stored under the empty key or from a row of fewer than four
  columns.
\<close>

theorem reference_index_first_write_wins:
  "snd (index_active_list (Some rows)) k =
     (if k = [] then None
      else map_option (\<lambda>r. strip (r ! 1))
             (find (\<lambda>r. 4 \<le> length r \<and> norm_num (r ! 0) = k) (drop (start_idx rows) rows))) \<and>
   fst (index_active_list (Some rows)) k =
     (if k = [] then None
      else map_option (\<lambda>r. strip (r ! 2))
             (find (\<lambda>r. 4 \<le> length r \<and> norm_num (r ! 3) = k) (drop (start_idx rows) rows)))"
proof (cases "rows = []")
  case True
  then show ?thesis by (simp add: index_active_list_def start_idx_def)
next
  case False
  then show ?thesis by (simp add: index_active_list_def index_rows_dept index_rows_oper)
qed

text \<open>
  After a header row, department \<open>10\<close> and operator \<open>7\<close> each occur in two rows: the
  names of the first are kept.
\<close>

theorem reference_index_first_write_wins_witness:
  "snd (index_active_list (Some [[''Dept'', ''DeptName'', ''Name'', ''ID''],
                                 [''10'', ''Sales'', ''Jane'', ''007''],
                                 [''010'', ''Other'', ''Bob'', ''7''],
                                 [''12'', ''Short'']])) ''10'' = Some ''Sales'' \<and>
   fst (index_active_list (Some [[''Dept'', ''DeptName'', ''Name'', ''ID''],
                                 [''10'', ''Sales'', ''Jane'', ''007''],
                                 [''010'', ''Other'', ''Bob'', ''7''],
                                 [''12'', ''Short'']])) ''7'' = Some ''Jane''"
proof -
  let ?rows = "[[''Dept'', ''DeptName'', ''Name'', ''ID''], [''10'', ''Sales'', ''Jane'', ''007''],
                [''010'', ''Other'', ''Bob'', ''7''], [''12'', ''Short'']]"
  have d: "map_option (\<lambda>r. strip (r ! 1))
             (find (\<lambda>r. 4 \<le> length r \<and> norm_num (r ! 0) = ''10'') (drop (start_idx ?rows) ?rows))
           = Some ''Sales''"
    by code_simp
  have p: "map_option (\<lambda>r. strip (r ! 2))
             (find (\<lambda>r. 4 \<le> length r \<and> norm_num (r ! 3) = ''7'') (drop (start_idx ?rows) ?rows))
           = Some ''Jane''"
    by code_simp
  from reference_index_first_write_wins [of ?rows "''10''"]
       reference_index_first_write_wins [of ?rows "''7''"] d p
  show ?thesis by simp
qed

section \<open>Facts about the retention manager\<close>


section \<open>Claims about the retention manager\<close>




section \<open>Facts about the document builder\<close>

lemma rows_xml_loop_eq:
  "rows_xml_loop maxd recs rows_xml =
     rows_xml @ map (\<lambda>(oper, newd). data_row oper newd) (List.map_filter (record_ints maxd) recs)"
  by (induction recs arbitrary: rows_xml) (auto simp: List.map_filter_simps split: option.splits)

lemma record_ints_Some_iff:
  "record_ints maxd rec = Some (oper, newd) \<longleftrightarrow>
     (\<exists>so sn. rec REQ_OPER = Some so \<and> rec REQ_NEW = Some sn \<and>
              py_int maxd so = Some oper \<and> py_int maxd sn = Some newd)"
  by (auto simp: record_ints_def split: option.splits)

lemma record_ints_None_iff:
  "record_ints maxd rec = None \<longleftrightarrow>
     (\<forall>so sn. rec REQ_OPER = Some so \<and> rec REQ_NEW = Some sn \<longrightarrow>
              py_int maxd so = None \<or> py_int maxd sn = None)"
  by (auto simp: record_ints_def split: option.splits)

lemma length_map_filter: "length (List.map_filter f xs) = length (filter (\<lambda>x. f x \<noteq> None) xs)"
  by (induction xs) (auto simp: List.map_filter_simps split: option.splits)

lemma records_generate_xml: "records (generate_xml e ctx) = records ctx"
  by (simp add: generate_xml_def add_def split: option.splits)

lemma py_int_42: "py_int 4300 ''42'' = Some 42" by code_simp
lemma py_int_7: "py_int 4300 ''7'' = Some 7" by code_simp
lemma py_int_A: "py_int 4300 ''A'' = None" by code_simp
lemma py_int_10: "py_int 4300 ''10'' = Some 10" by code_simp
lemma py_int_sup2: "py_int 4300 [CHR 0xB2] = None" by code_simp
lemma py_int_examples: "py_int 0 '' -1_000 '' = Some (- 1000)" "py_int 0 ''1__0'' = None" "py_int 0 ''+'' = None"
  "py_int 0 [CHR 0x1C, CHR ''5''] = None" "py_int 3 ''0007'' = None" "py_int 4 ''0_007'' = Some 7"
  by code_simp+

lemma digit_char:
  assumes "n < 10"
  shows "isdecimal (char_of (48 + n))" "digit_value (char_of (48 + n)) = n"
    "\<not> int_space (char_of (48 + n))"
  using assms by (simp_all add: isdecimal_def digit_value_def int_space_def Let_def)

lemma isdecimal_not_sign: "isdecimal c \<Longrightarrow> c \<noteq> CHR ''+'' \<and> c \<noteq> CHR ''-'' \<and> \<not> int_space c"
  by (auto simp: isdecimal_def int_space_def Let_def)

lemma nat_str_decimal: "\<forall>c\<in>set (nat_str n). isdecimal c"
proof (induction n rule: nat_str.induct)
  case (1 n)
  show ?case
  proof (cases "n < 10")
    case True
    then show ?thesis by (subst nat_str.simps) (simp add: digit_char)
  next
    case False
    then have "n mod 10 < 10" by simp
    with False 1 show ?thesis by (subst nat_str.simps) (simp add: digit_char)
  qed
qed

lemma nat_str_nonempty: "nat_str n \<noteq> []"
  by (subst nat_str.simps) simp

lemma parse_digits_decimal:
  "\<forall>c\<in>set ds. isdecimal c \<Longrightarrow>
     parse_digits ds acc = Some (foldl (\<lambda>a d. a * 10 + digit_value d) acc ds)"
  by (induction ds arbitrary: acc) simp_all

lemma foldl_nat_str: "foldl (\<lambda>a d. a * 10 + digit_value d) 0 (nat_str n) = n"
proof (induction n rule: nat_str.induct)
  case (1 n)
  show ?case
  proof (cases "n < 10")
    case True
    then show ?thesis by (subst nat_str.simps) (simp add: digit_char)
  next
    case False
    then have "n mod 10 < 10" by simp
    with False 1 show ?thesis by (subst nat_str.simps) (simp add: digit_char)
  qed
qed

lemma dropWhile_keep: "s \<noteq> [] \<Longrightarrow> \<not> P (hd s) \<Longrightarrow> dropWhile P s = s"
  by (cases s) simp_all

lemma int_trim_keep:
  assumes "s \<noteq> []" "\<not> int_space (hd s)" "\<not> int_space (last s)"
  shows "rev (dropWhile int_space (rev (dropWhile int_space s))) = s"
proof -
  have "dropWhile int_space s = s" using assms by (simp add: dropWhile_keep)
  moreover have "dropWhile int_space (rev s) = rev s"
    using assms by (intro dropWhile_keep) (simp_all add: hd_rev)
  ultimately show ?thesis by simp
qed

lemma py_int_nat_str: "py_int 0 (nat_str n) = Some (int n)"
proof -
  obtain c cs where cs: "nat_str n = c # cs"
    using nat_str_nonempty [of n] by (cases "nat_str n") auto
  have dec: "\<forall>d\<in>set (c # cs). isdecimal d" using nat_str_decimal [of n] cs by simp
  then have c: "isdecimal c" by simp
  have "\<not> int_space (last (c # cs))"
    using dec isdecimal_not_sign last_in_set [of "c # cs"] by blast
  then have trim: "rev (dropWhile int_space (rev (dropWhile int_space (c # cs)))) = c # cs"
    using c isdecimal_not_sign by (intro int_trim_keep) auto
  have "parse_digits cs (digit_value c) = Some (foldl (\<lambda>a d. a * 10 + digit_value d) 0 (c # cs))"
    using dec by (simp add: parse_digits_decimal)
  then have "parse_digits cs (digit_value c) = Some n"
    using foldl_nat_str [of n] cs by simp
  then show ?thesis
    using c isdecimal_not_sign [OF c] unfolding py_int_def cs trim by (simp add: Let_def)
qed

lemma py_int_int_str: "py_int 0 (int_str i) = Some i"
proof (cases "i < 0")
  case False
  then show ?thesis by (simp add: int_str_def py_int_nat_str)
next
  case True
  let ?n = "nat (- i)"
  obtain c cs where cs: "nat_str ?n = c # cs"
    using nat_str_nonempty [of ?n] by (cases "nat_str ?n") auto
  have dec: "\<forall>d\<in>set (c # cs). isdecimal d" using nat_str_decimal [of ?n] cs by simp
  then have c: "isdecimal c" by simp
  have "\<not> int_space (last (CHR ''-'' # c # cs))"
    using dec isdecimal_not_sign last_in_set [of "c # cs"] by auto
  moreover have "\<not> int_space (CHR ''-'')" by (simp add: int_space_def)
  ultimately have trim:
    "rev (dropWhile int_space (rev (dropWhile int_space (CHR ''-'' # c # cs)))) = CHR ''-'' # c # cs"
    by (intro int_trim_keep) auto
  have "parse_digits cs (digit_value c) = Some (foldl (\<lambda>a d. a * 10 + digit_value d) 0 (c # cs))"
    using dec by (simp add: parse_digits_decimal)
  then have "parse_digits cs (digit_value c) = Some ?n"
    using foldl_nat_str [of ?n] cs by simp
  moreover have s: "int_str i = CHR ''-'' # c # cs"
    using True cs by (simp add: int_str_def)
  ultimately show ?thesis
    using True c unfolding py_int_def s trim by (simp add: Let_def)
qed

lemma data_row_text:
  \<open>(\<lambda>(oper, newd). data_row oper newd) =
   (\<lambda>(oper, newd).
      ''   <Row>\<newline>'' @
      ''    <Cell><Data ss:Type="String">[u:1]</Data></Cell>\<newline>'' @
      ''    <Cell><Data ss:Type="Number">'' @ int_str oper @ ''</Data></Cell>\<newline>'' @
      ''    <Cell><Data ss:Type="Number">'' @ int_str newd @ ''</Data></Cell>\<newline>'' @
      ''   </Row>\<newline>'')\<close>
  by (simp add: data_row_def)

section \<open>Claims about the document builder\<close>

text \<open>
  C7: the document is, character for character, the fixed head, whose last row is the
  schema row (a \<open>Number\<close> cell \<open>2022\<close> and the \<open>String\<close> cells \<open>101:2\<close> and \<open>103:4\<close>) and
  which holds no other row, then one data row for each record whose operator id and new
  department are both present and both parse as integers, in order, then the fixed tail,
  which holds no row. A data row carries the constant \<open>String\<close> cell \<open>[u:1]\<close> and the two
  integers as \<open>Number\<close> cells, each written in the decimal form that \<open>int\<close> reads back as
  the same integer. Every other record contributes nothing, and generating the document
  leaves the parsed records, whose number is the reported total, as they were.
\<close>

theorem build_xml_rows:
  \<open>build_xml maxd created recs =
     ''<?xml version="1.0"?>\<newline>'' @
     ''<?mso-application progid="Excel.Sheet"?>\<newline>'' @
     ''<Workbook xmlns="urn:schemas-microsoft-com:office:spreadsheet"\<newline>'' @
     '' xmlns:o="urn:schemas-microsoft-com:office:office"\<newline>'' @
     '' xmlns:x="urn:schemas-microsoft-com:office:excel"\<newline>'' @
     '' xmlns:ss="urn:schemas-microsoft-com:office:spreadsheet"\<newline>'' @
     '' xmlns:html="http://www.w3.org/TR/REC-html40">\<newline>'' @
     '' <DocumentProperties xmlns="urn:schemas-microsoft-com:office:office">\<newline>'' @
     ''  <Author>Operator Department Updater</Author>\<newline>'' @
     ''  <LastAuthor>Operator Department Updater</LastAuthor>\<newline>'' @
     ''  <Created>'' @ created @ ''</Created>\<newline>'' @
     ''  <Version>16.00</Version>\<newline>'' @
     '' </DocumentProperties>\<newline>'' @
     '' <ExcelWorkbook xmlns="urn:schemas-microsoft-com:office:excel">\<newline>'' @
     ''  <ProtectStructure>False</ProtectStructure>\<newline>'' @
     ''  <ProtectWindows>False</ProtectWindows>\<newline>'' @
     '' </ExcelWorkbook>\<newline>'' @
     '' <Styles>\<newline>'' @
     ''  <Style ss:ID="Default" ss:Name="Normal">\<newline>'' @
     ''   <Alignment ss:Vertical="Bottom"/>\<newline>'' @
     ''   <Borders/>\<newline>'' @
     ''   <Font ss:FontName="Calibri" x:Family="Swiss" ss:Size="11" ss:Color="#000000"/>\<newline>'' @
     ''   <Interior/>\<newline>'' @
     ''   <NumberFormat/>\<newline>'' @
     ''   <Protection/>\<newline>'' @
     ''  </Style>\<newline>'' @
     ''  <Style ss:ID="s62">\<newline>'' @
     ''   <NumberFormat ss:Format="@"/>\<newline>'' @
     ''  </Style>\<newline>'' @
     '' </Styles>\<newline>'' @
     '' <Worksheet ss:Name="Work Order Center">\<newline>'' @
     ''  <Table ss:ExpandedColumnCount="3" x:FullColumns="1" x:FullRows="1">\<newline>'' @
     ''   <Row>\<newline>'' @
     ''    <Cell ss:StyleID="s62"><Data ss:Type="Number">2022</Data></Cell>\<newline>'' @
     ''    <Cell ss:StyleID="s62"><Data ss:Type="String">101:2</Data></Cell>\<newline>'' @
     ''    <Cell ss:StyleID="s62"><Data ss:Type="String">103:4</Data></Cell>\<newline>'' @
     ''   </Row>\<newline>'' @
     concat (map (\<lambda>(oper, newd).
                    ''   <Row>\<newline>'' @
                    ''    <Cell><Data ss:Type="String">[u:1]</Data></Cell>\<newline>'' @
                    ''    <Cell><Data ss:Type="Number">'' @ int_str oper @ ''</Data></Cell>\<newline>'' @
                    ''    <Cell><Data ss:Type="Number">'' @ int_str newd @ ''</Data></Cell>\<newline>'' @
                    ''   </Row>\<newline>'')
               (List.map_filter (record_ints maxd) recs)) @
     ''  </Table>\<newline>'' @
     ''  <WorksheetOptions xmlns="urn:schemas-microsoft-com:office:excel">\<newline>'' @
     ''   <ProtectObjects>False</ProtectObjects>\<newline>'' @
     ''   <ProtectScenarios>False</ProtectScenarios>\<newline>'' @
     ''  </WorksheetOptions>\<newline>'' @
     '' </Worksheet>\<newline>'' @
     ''</Workbook>\<newline>'' \<and>
   py_int 0 (int_str i) = Some i \<and>
   (record_ints maxd rec = Some (oper, newd) \<longleftrightarrow>
      (\<exists>so sn. rec REQ_OPER = Some so \<and> rec REQ_NEW = Some sn \<and>
               py_int maxd so = Some oper \<and> py_int maxd sn = Some newd)) \<and>
   length (List.map_filter (record_ints maxd) recs) =
     length (filter (\<lambda>rec. record_ints maxd rec \<noteq> None) recs) \<and>
   records (generate_xml e ctx) = records ctx\<close>
proof -
  have doc: "build_xml maxd created recs =
      xml_head created @
      concat (map (\<lambda>(oper, newd). data_row oper newd) (List.map_filter (record_ints maxd) recs)) @
      xml_tail"
    by (simp add: build_xml_def rows_xml_loop_eq)
  show ?thesis
    unfolding doc data_row_text
    by (simp add: xml_head_def schema_row_def xml_tail_def py_int_int_str record_ints_Some_iff
        length_map_filter records_generate_xml)
qed

text \<open>
  Of the records \<open>(42, 7)\<close> and \<open>(A, 10)\<close> only the first gives a data row; the document
  in full.
\<close>

theorem build_xml_rows_witness:
  \<open>build_xml 4300 ''2026-01-01T00:00:00Z''
     [[REQ_OPER \<mapsto> ''42'', REQ_NEW \<mapsto> ''7''], [REQ_OPER \<mapsto> ''A'', REQ_NEW \<mapsto> ''10'']] =
     ''<?xml version="1.0"?>\<newline>'' @
     ''<?mso-application progid="Excel.Sheet"?>\<newline>'' @
     ''<Workbook xmlns="urn:schemas-microsoft-com:office:spreadsheet"\<newline>'' @
     '' xmlns:o="urn:schemas-microsoft-com:office:office"\<newline>'' @
     '' xmlns:x="urn:schemas-microsoft-com:office:excel"\<newline>'' @
     '' xmlns:ss="urn:schemas-microsoft-com:office:spreadsheet"\<newline>'' @
     '' xmlns:html="http://www.w3.org/TR/REC-html40">\<newline>'' @
     '' <DocumentProperties xmlns="urn:schemas-microsoft-com:office:office">\<newline>'' @
     ''  <Author>Operator Department Updater</Author>\<newline>'' @
     ''  <LastAuthor>Operator Department Updater</LastAuthor>\<newline>'' @
     ''  <Created>2026-01-01T00:00:00Z</Created>\<newline>'' @
     ''  <Version>16.00</Version>\<newline>'' @
     '' </DocumentProperties>\<newline>'' @
     '' <ExcelWorkbook xmlns="urn:schemas-microsoft-com:office:excel">\<newline>'' @
     ''  <ProtectStructure>False</ProtectStructure>\<newline>'' @
     ''  <ProtectWindows>False</ProtectWindows>\<newline>'' @
     '' </ExcelWorkbook>\<newline>'' @
     '' <Styles>\<newline>'' @
     ''  <Style ss:ID="Default" ss:Name="Normal">\<newline>'' @
     ''   <Alignment ss:Vertical="Bottom"/>\<newline>'' @
     ''   <Borders/>\<newline>'' @
     ''   <Font ss:FontName="Calibri" x:Family="Swiss" ss:Size="11" ss:Color="#000000"/>\<newline>'' @
     ''   <Interior/>\<newline>'' @
     ''   <NumberFormat/>\<newline>'' @
     ''   <Protection/>\<newline>'' @
     ''  </Style>\<newline>'' @
     ''  <Style ss:ID="s62">\<newline>'' @
     ''   <NumberFormat ss:Format="@"/>\<newline>'' @
     ''  </Style>\<newline>'' @
     '' </Styles>\<newline>'' @
     '' <Worksheet ss:Name="Work Order Center">\<newline>'' @
     ''  <Table ss:ExpandedColumnCount="3" x:FullColumns="1" x:FullRows="1">\<newline>'' @
     ''   <Row>\<newline>'' @
     ''    <Cell ss:StyleID="s62"><Data ss:Type="Number">2022</Data></Cell>\<newline>'' @
     ''    <Cell ss:StyleID="s62"><Data ss:Type="String">101:2</Data></Cell>\<newline>'' @
     ''    <Cell ss:StyleID="s62"><Data ss:Type="String">103:4</Data></Cell>\<newline>'' @
     ''   </Row>\<newline>'' @
     ''   <Row>\<newline>'' @
     ''    <Cell><Data ss:Type="String">[u:1]</Data></Cell>\<newline>'' @
     ''    <Cell><Data ss:Type="Number">42</Data></Cell>\<newline>'' @
     ''    <Cell><Data ss:Type="Number">7</Data></Cell>\<newline>'' @
     ''   </Row>\<newline>'' @
     ''  </Table>\<newline>'' @
     ''  <WorksheetOptions xmlns="urn:schemas-microsoft-com:office:excel">\<newline>'' @
     ''   <ProtectObjects>False</ProtectObjects>\<newline>'' @
     ''   <ProtectScenarios>False</ProtectScenarios>\<newline>'' @
     ''  </WorksheetOptions>\<newline>'' @
     '' </Worksheet>\<newline>'' @
     ''</Workbook>\<newline>''\<close>
proof -
  have a: "record_ints 4300 [REQ_OPER \<mapsto> ''42'', REQ_NEW \<mapsto> ''7''] = Some (42, 7)"
    by (simp add: record_ints_def py_int_42 py_int_7 REQ_OPER_def REQ_NEW_def)
  have b: "record_ints 4300 [REQ_OPER \<mapsto> ''A'', REQ_NEW \<mapsto> ''10''] = None"
    by (simp add: record_ints_def py_int_A REQ_OPER_def REQ_NEW_def)
  have c: "int_str 42 = ''42''" "int_str 7 = ''7''"
    by code_simp+
  from build_xml_rows [of 4300 "''2026-01-01T00:00:00Z''"
      "[[REQ_OPER \<mapsto> ''42'', REQ_NEW \<mapsto> ''7''], [REQ_OPER \<mapsto> ''A'', REQ_NEW \<mapsto> ''10'']]"] a b c
  show ?thesis by (simp add: List.map_filter_simps)
qed

section \<open>Facts about the pipeline\<close>

lemma startswith_Nil: "startswith s []"
  by (simp add: startswith_def)

lemma startswith_Cons: "startswith (c # s) (d # p) \<longleftrightarrow> c = d \<and> startswith s p"
  by (auto simp: startswith_def)

lemma startswith_loader_result:
  "startswith (loader_result xml_gen exe outcome) ''SUCCESS'' \<longleftrightarrow>
     xml_gen \<and> exe \<and> outcome = Returned 0"
  by (cases outcome) (simp_all add: loader_result_def startswith_Cons startswith_Nil)

lemma loader_result_SUCCESS_iff:
  "loader_result xml_gen exe outcome = ''SUCCESS'' \<longleftrightarrow> xml_gen \<and> exe \<and> outcome = Returned 0"
  by (cases outcome) (simp_all add: loader_result_def)

lemma subject_status_add: "subject_status (add ctx msg) = subject_status ctx"
  by (simp add: add_def)

lemma lines_add: "lines (add ctx msg) = lines ctx @ [msg]"
  by (simp add: add_def)

lemma subject_status_run_loader:
  "subject_status (run_loader e ctx) =
     (if xml_generated ctx \<and> exe_exists e \<and> loader e = Returned 0 then ''SUCCESS'' else ''ISSUE'')"
  by (simp add: run_loader_def Let_def subject_status_add startswith_loader_result)

lemma lines_run_loader:
  "lines (run_loader e ctx) =
     lines ctx @ [''Data loader: '' @ loader_result (xml_generated ctx) (exe_exists e) (loader e)]"
  by (simp add: run_loader_def Let_def lines_add)

lemma fa_result_run_loader:
  "fa_result (run_loader e ctx) = loader_result (xml_generated ctx) (exe_exists e) (loader e)"
  by (simp add: run_loader_def Let_def add_def)

lemma subject_status_send_report: "subject_status (send_report e ctx) = subject_status ctx"
  by (simp add: send_report_def Let_def add_def split: option.splits)

lemma subject_status_prune_logs: "subject_status (prune_logs e fa_txt ctx) = subject_status ctx"
  by (simp add: prune_logs_def Let_def add_def split: prod.splits)

lemma subject_status_handler: "subject_status (top_level_handler e err ctx) = subject_status ctx"
  by (simp add: top_level_handler_def)

lemma lines_send_report: "\<exists>more. lines (send_report e ctx) = lines ctx @ more"
  by (simp add: send_report_def Let_def add_def split: option.splits)

lemma lines_prune_logs: "\<exists>more. lines (prune_logs e fa_txt ctx) = lines ctx @ more"
  by (simp add: prune_logs_def Let_def add_def split: prod.splits)

lemma lines_handler: "lines (top_level_handler e err ctx) = lines ctx"
  by (simp add: top_level_handler_def)

lemma subject_status_main:
  "subject_status (main e) =
     (if setup_error e = None then subject_status (run_loader e (steps_1_to_4 e)) else ''OK'')"
  by (simp add: main_def Let_def subject_status_handler subject_status_send_report
      subject_status_prune_logs RunContext_def split: option.splits sum.splits)

lemma lines_main:
  assumes "setup_error e = None"
  shows "\<exists>more. lines (main e) = lines (run_loader e (steps_1_to_4 e)) @ more"
proof (cases "locate_log e")
  case (Inl err)
  with assms show ?thesis by (simp add: main_def Let_def lines_handler)
next
  case (Inr fa_txt)
  obtain m1 where m1: "lines (send_report e (run_loader e (steps_1_to_4 e))) =
      lines (run_loader e (steps_1_to_4 e)) @ m1"
    using lines_send_report by blast
  obtain m2 where m2: "lines (prune_logs e fa_txt (send_report e (run_loader e (steps_1_to_4 e)))) =
      lines (send_report e (run_loader e (steps_1_to_4 e))) @ m2"
    using lines_prune_logs by blast
  from assms Inr m1 m2 show ?thesis by (simp add: main_def Let_def)
qed

lemma effects_add: "effects (add ctx msg) = effects ctx"
  by (simp add: effects_def add_def)

lemma effects_steps_1_to_4: "effects (steps_1_to_4 e) = effects RunContext"
proof -
  have a: "effects (copy_input e c) = effects c" for c
    by (simp add: copy_input_def effects_def add_def split: option.splits)
  have b: "effects (prune_inputs e c) = effects c" for c
    by (simp add: prune_inputs_def effects_def add_def split: prod.splits)
  have c: "effects (parse_input e c) = effects c" for c
    by (simp add: parse_input_def effects_def add_def Let_def split: sum.splits)
  have d: "effects (generate_xml e c) = effects c" for c
    by (simp add: generate_xml_def effects_def add_def split: option.splits)
  have f: "effects (write_runfile e c) = effects c" for c
    by (simp add: write_runfile_def effects_def add_def split: option.splits)
  show ?thesis by (simp add: steps_1_to_4_def a b c d f)
qed

lemma effects_run_loader: "effects (run_loader e ctx) = effects ctx"
  by (simp add: run_loader_def effects_def add_def Let_def)

lemma effects_RunContext: "effects RunContext = (False, None, False, False, False)"
  by (simp add: effects_def RunContext_def)

lemma latest_loop_unmatched:
  "\<forall>p\<in>set ps. \<not> matches (fname p) \<Longrightarrow> latest_loop matches epoch ps (newest, t) = newest"
  by (induction ps) simp_all

lemma locate_fa_txt_no_txt:
  assumes "\<forall>p\<in>set entries. \<not> matches (fname p)"
  shows "locate_fa_txt matches (Some entries) epoch = Inl max_empty"
proof -
  have "filter (\<lambda>p. matches (fname p)) entries = []"
    using assms by (simp add: filter_empty_conv)
  then show ?thesis
    by (simp add: locate_fa_txt_def find_latest_txt_after_def latest_loop_unmatched [OF assms]
        max_by_mtime_def)
qed

lemma header_low_example: "header_low [''oper_no'', ''dept''] = [''oper_no'', ''dept'']"
  by code_simp

lemma cell_examples:
  "cell [''0042'', '' 007''] 0 = ''0042''" "cell [''0042'', '' 007''] (Suc 0) = ''007''"
  by code_simp+

lemma norm_num_examples: "norm_num ''0042'' = ''42''" "norm_num ''007'' = ''7''"
  by code_simp+

lemma nat_str_1: "nat_str (Suc 0) = ''1''"
  by code_simp

lemma column_map_example:
  "column_map [''oper_no'', ''dept''] REQ_OPER = Some 0"
  "column_map [''oper_no'', ''dept''] REQ_NEW = Some 1"
  "column_map [''oper_no'', ''dept''] OPT_OLD = None"
  by (simp_all add: column_map_def header_low_example Let_def match_header_def oper_names_def
      new_names_def old_names_def role_names_distinct)

lemma read_unmatched_example:
  "read_unmatched [[''oper_no'', ''dept''], [''0042'', '' 007'']] =
     Inr [[REQ_OPER \<mapsto> ''42'', REQ_NEW \<mapsto> ''7'']]"
  by (simp add: read_unmatched_def column_map_example cell_examples norm_num_examples Let_def)

lemma env0_fields:
  "setup_error env0 = None" "retain_days env0 = 30" "assets_input_exists env0"
  "copy_error env0 = Some ''disk full''" "input_dir env0 = Some []" "dest_csv_exists env0"
  "csv_rows env0 = Inr [[''oper_no'', ''dept''], [''0042'', '' 007'']]"
  "xml_name env0 = ''2026-01-01 update operator depts.xml''" "xml_write_error env0 = None"
  "runfile_write_error env0 = None" "exe_exists env0" "loader env0 = Returned 0"
  "active_list env0 = Inr None" "fa_txt_folder env0 = None" "email_save_error env0 = None"
  "email_send_error env0 = None" "logs_dir env0 = Some []" "fallback_log_writable env0"
  by (simp_all add: env0_def)

lemma copy_input_env0:
  "copy_input env0 RunContext =
     RunContext\<lparr>lines := [''Input copy failed: disk full''], subject_status := ''ISSUE''\<rparr>"
  by (simp add: copy_input_def env0_fields add_def RunContext_def)

lemma prune_inputs_env0: "prune_inputs env0 ctx = ctx"
  by (simp add: prune_inputs_def env0_fields remove_old_files_def)

lemma parse_input_env0:
  "parse_input env0 (RunContext\<lparr>lines := ls, subject_status := st\<rparr>) =
     RunContext\<lparr>lines := ls @ [''Parsed 1 record(s) from CSV''], subject_status := st,
       records := [[REQ_OPER \<mapsto> ''42'', REQ_NEW \<mapsto> ''7'']]\<rparr>"
  by (simp add: parse_input_def env0_fields read_unmatched_example nat_str_1 add_def
      RunContext_def Let_def)

lemma generate_xml_env0:
  "lines (generate_xml env0 ctx) =
     (if records ctx \<noteq> [] then lines ctx @ [''XML generated: 2026-01-01 update operator depts.xml'']
      else lines ctx @ [''No records to write into XML''])"
  "xml_generated (generate_xml env0 ctx) = (records ctx \<noteq> [] \<or> xml_generated ctx)"
  by (simp_all add: generate_xml_def env0_fields add_def)

lemma write_runfile_env0:
  "lines (write_runfile env0 ctx) = lines ctx @ [''Data loader runfile prepared'']"
  "xml_generated (write_runfile env0 ctx) = xml_generated ctx"
  by (simp_all add: write_runfile_def env0_fields add_def)

lemma steps_1_to_4_env0:
  "lines (steps_1_to_4 env0) =
     [''Input copy failed: disk full'', ''Parsed 1 record(s) from CSV'',
      ''XML generated: 2026-01-01 update operator depts.xml'', ''Data loader runfile prepared'']"
  "xml_generated (steps_1_to_4 env0)"
  by (simp_all add: steps_1_to_4_def copy_input_env0 prune_inputs_env0 parse_input_env0
      generate_xml_env0 write_runfile_env0)

lemma steps_1_to_4_env1: "steps_1_to_4 env1 = steps_1_to_4 env0"
proof -
  have a: "copy_input env1 c = copy_input env0 c" for c
    by (simp add: copy_input_def env1_def split: option.splits)
  have b: "prune_inputs env1 c = prune_inputs env0 c" for c
    by (simp add: prune_inputs_def env1_def split: prod.splits)
  have c: "parse_input env1 c = parse_input env0 c" for c
    by (simp add: parse_input_def env1_def split: sum.splits)
  have d: "generate_xml env1 c = generate_xml env0 c" for c
    by (simp add: generate_xml_def env1_def split: option.splits)
  have f: "write_runfile env1 c = write_runfile env0 c" for c
    by (simp add: write_runfile_def env1_def split: option.splits)
  show ?thesis by (simp only: steps_1_to_4_def a b c d f)
qed

lemma env1_fields:
  "setup_error env1 = None" "active_list env1 = Inr None" "fallback_log_writable env1"
  "exe_exists env1" "loader env1 = Returned 0"
  "fa_txt_folder env1 = Some [\<lparr>fname = ''old.log'', st_mtime = Some 1, unlink_ok = True\<rparr>]"
  by (simp_all add: env1_def env0_fields)

lemma glob_match_env1: "\<not> glob_match env1 ''*.txt'' ''old.log''"
  by (simp add: env1_def env0_def)

section \<open>Claims about the pipeline\<close>

text \<open>
  C1: the overall status of a run is \<open>SUCCESS\<close> if and only if the loader step was reached
  and the loader's outcome is \<open>SUCCESS\<close>, that is, a document was generated, the executable
  exists and the process exited with code 0; with any other outcome at that step the status
  is \<open>ISSUE\<close>. The step assigns the status whatever it was before, and only appends its
  line: the lines of the earlier steps stay at the head of the narrative.
\<close>

theorem run_status_follows_loader:
  "(subject_status (main e) = ''SUCCESS'' \<longleftrightarrow>
      setup_error e = None \<and> xml_generated (steps_1_to_4 e) \<and> exe_exists e \<and> loader e = Returned 0) \<and>
   (setup_error e = None \<and>
    \<not> (xml_generated (steps_1_to_4 e) \<and> exe_exists e \<and> loader e = Returned 0) \<longrightarrow>
      subject_status (main e) = ''ISSUE'') \<and>
   (loader_result (xml_generated ctx) (exe_exists e) (loader e) = ''SUCCESS'' \<longleftrightarrow>
      xml_generated ctx \<and> exe_exists e \<and> loader e = Returned 0) \<and>
   subject_status (run_loader e ctx) =
     (if loader_result (xml_generated ctx) (exe_exists e) (loader e) = ''SUCCESS''
      then ''SUCCESS'' else ''ISSUE'') \<and>
   lines (run_loader e ctx) =
     lines ctx @ [''Data loader: '' @ loader_result (xml_generated ctx) (exe_exists e) (loader e)] \<and>
   (setup_error e = None \<longrightarrow>
      take (length (lines (steps_1_to_4 e))) (lines (main e)) = lines (steps_1_to_4 e))"
proof -
  have a: "subject_status (main e) = ''SUCCESS'' \<longleftrightarrow>
      setup_error e = None \<and> xml_generated (steps_1_to_4 e) \<and> exe_exists e \<and> loader e = Returned 0"
    by (simp add: subject_status_main subject_status_run_loader)
  have b: "setup_error e = None \<and>
    \<not> (xml_generated (steps_1_to_4 e) \<and> exe_exists e \<and> loader e = Returned 0) \<longrightarrow>
      subject_status (main e) = ''ISSUE''"
    by (simp add: subject_status_main subject_status_run_loader)
  have c: "subject_status (run_loader e ctx) =
     (if loader_result (xml_generated ctx) (exe_exists e) (loader e) = ''SUCCESS''
      then ''SUCCESS'' else ''ISSUE'')"
    by (simp only: subject_status_run_loader loader_result_SUCCESS_iff)
  have d: "take (length (lines (steps_1_to_4 e))) (lines (main e)) = lines (steps_1_to_4 e)"
    if "setup_error e = None"
  proof -
    from lines_main [OF that] obtain more where
      "lines (main e) = lines (run_loader e (steps_1_to_4 e)) @ more" by blast
    then show ?thesis by (simp add: lines_run_loader)
  qed
  from a b c d show ?thesis
    by (simp only: loader_result_SUCCESS_iff lines_run_loader) blast
qed

text \<open>
  In \<open>env0\<close> the failed copy records \<open>ISSUE\<close>; the run nevertheless ends with \<open>SUCCESS\<close>,
  and the line of the failed copy is still the first of the narrative.
\<close>

theorem run_status_follows_loader_witness:
  "subject_status (copy_input env0 RunContext) = ''ISSUE'' \<and>
   subject_status (main env0) = ''SUCCESS'' \<and>
   take 4 (lines (main env0)) =
     [''Input copy failed: disk full'', ''Parsed 1 record(s) from CSV'',
      ''XML generated: 2026-01-01 update operator depts.xml'', ''Data loader runfile prepared'']"
proof -
  have a: "setup_error env0 = None" "exe_exists env0" "loader env0 = Returned 0"
    by (rule env0_fields)+
  have b: "subject_status (copy_input env0 RunContext) = ''ISSUE''"
    by (simp add: copy_input_env0)
  from run_status_follows_loader [of env0 RunContext] a b steps_1_to_4_env0
  show ?thesis by (simp add: eval_nat_numeral)
qed

text \<open>
  C2 (as amended): the outcome of the loader step is \<open>SUCCESS\<close> when the process exits
  with code 0, \<open>FAILED (exit code n)\<close> when it exits with \<open>n \<noteq> 0\<close>, \<open>FAILED (timeout)\<close>
  when the timeout expires, \<open>FAILED (exception: ...)\<close> on any other exception,
  \<open>SKIPPED (no XML)\<close> when no document was generated, whether or not the executable exists,
  and \<open>FAILED (FADATALOADER.EXE not found)\<close>, a failure and not a skip, when a document was
  generated and the executable is missing.
\<close>

theorem loader_result_classification:
  "(xml_gen \<and> exe \<and> outcome = Returned 0 \<longrightarrow> loader_result xml_gen exe outcome = ''SUCCESS'') \<and>
   (xml_gen \<and> exe \<and> outcome = Returned rc \<and> rc \<noteq> 0 \<longrightarrow>
      loader_result xml_gen exe outcome = ''FAILED (exit code '' @ int_str rc @ '')'') \<and>
   (xml_gen \<and> exe \<and> outcome = TimeoutExpired \<longrightarrow>
      loader_result xml_gen exe outcome = ''FAILED (timeout)'') \<and>
   (xml_gen \<and> exe \<and> outcome = Raised msg \<longrightarrow>
      loader_result xml_gen exe outcome = ''FAILED (exception: '' @ msg @ '')'') \<and>
   (\<not> xml_gen \<longrightarrow> loader_result xml_gen exe outcome = ''SKIPPED (no XML)'') \<and>
   (xml_gen \<and> \<not> exe \<longrightarrow>
      loader_result xml_gen exe outcome = ''FAILED (FADATALOADER.EXE not found)'') \<and>
   fa_result (run_loader e ctx) = loader_result (xml_generated ctx) (exe_exists e) (loader e)"
  by (simp add: loader_result_def fa_result_run_loader)

theorem loader_result_classification_witness:
  "loader_result True True (Returned 0) = ''SUCCESS'' \<and>
   loader_result True True (Returned 3) = ''FAILED (exit code 3)'' \<and>
   loader_result True True TimeoutExpired = ''FAILED (timeout)'' \<and>
   loader_result True True (Raised ''boom'') = ''FAILED (exception: boom)'' \<and>
   loader_result False False (Returned 0) = ''SKIPPED (no XML)'' \<and>
   loader_result True False (Returned 0) = ''FAILED (FADATALOADER.EXE not found)''"
proof -
  have s3: "int_str 3 = ''3''" by code_simp
  from loader_result_classification [of True True "Returned 0" 0 "''x''"]
    loader_result_classification [of True True "Returned 3" 3 "''x''"]
    loader_result_classification [of True True TimeoutExpired 0 "''x''"]
    loader_result_classification [of True True "Raised ''boom''" 0 "''boom''"]
    loader_result_classification [of False False "Returned 0" 0 "''x''"]
    loader_result_classification [of True False "Returned 0" 0 "''x''"]
    s3
  show ?thesis by simp
qed

text \<open>
  With a document generated and the executable missing, the outcome is a \<open>FAILED\<close> one.
\<close>

theorem loader_result_exe_missing_counterexample:
  "loader_result True False (Returned 0) = ''FAILED (FADATALOADER.EXE not found)'' \<and>
   \<not> startswith (loader_result True False (Returned 0)) ''SKIPPED''"
  by (simp add: loader_result_def startswith_Cons)

text \<open>
  C9: in a run that reaches the search for the loader's log, when the log folder exists and
  holds no \<open>.txt\<close> file, the fallback \<open>max\<close> raises \<open>ValueError\<close> on the empty sequence
  and the exception reaches the top-level handler: the run ends in the state the loader
  step left, the report is neither saved nor sent, the logs are not pruned and nothing is
  appended, and the only thing done is the attempt to write the \<open>[FATAL]\<close> line.
\<close>

theorem empty_log_folder_is_fatal:
  assumes "setup_error e = None"
    and "active_list e = Inr reference"
    and "fa_txt_folder e = Some entries"
    and "\<forall>p\<in>set entries. \<not> glob_match e ''*.txt'' (fname p)"
  shows "main e = (run_loader e (steps_1_to_4 e))
                    \<lparr>fatal := Some max_empty, fatal_logged := fallback_log_writable e\<rparr> \<and>
         \<not> email_saved (main e) \<and> email_subject (main e) = None \<and> \<not> email_sent (main e) \<and>
         \<not> logs_pruned (main e) \<and> \<not> loader_log_appended (main e) \<and>
         lines (main e) = lines (steps_1_to_4 e) @ [''Data loader: '' @ fa_result (main e)]"
proof -
  have loc: "locate_log e = Inl max_empty"
    using assms(2,3) locate_fa_txt_no_txt [OF assms(4)] by (simp add: locate_log_def)
  have m: "main e = (run_loader e (steps_1_to_4 e))
                    \<lparr>fatal := Some max_empty, fatal_logged := fallback_log_writable e\<rparr>"
    using assms(1) loc by (simp add: main_def Let_def top_level_handler_def)
  have "effects (main e) = (False, None, False, False, False)"
    using effects_run_loader [of e "steps_1_to_4 e"] effects_steps_1_to_4 [of e] effects_RunContext
    by (simp add: m effects_def)
  moreover have "lines (main e) = lines (steps_1_to_4 e) @ [''Data loader: '' @ fa_result (main e)]"
    by (simp add: m lines_run_loader fa_result_run_loader)
  ultimately show ?thesis using m by (simp add: effects_def)
qed

text \<open>In \<open>env1\<close> the log folder holds \<open>old.log\<close> only.\<close>

theorem empty_log_folder_is_fatal_witness:
  "fatal (main env1) = Some max_empty \<and> fatal_logged (main env1) \<and>
   \<not> email_saved (main env1) \<and> \<not> email_sent (main env1) \<and> \<not> logs_pruned (main env1) \<and>
   lines (main env1) =
     [''Input copy failed: disk full'', ''Parsed 1 record(s) from CSV'',
      ''XML generated: 2026-01-01 update operator depts.xml'', ''Data loader runfile prepared'',
      ''Data loader: SUCCESS'']"
proof -
  let ?es = "[\<lparr>fname = ''old.log'', st_mtime = Some 1, unlink_ok = True\<rparr>]"
  have a: "setup_error env1 = None" by (rule env1_fields)
  have b: "active_list env1 = Inr None" by (rule env1_fields)
  have c: "fa_txt_folder env1 = Some ?es" by (rule env1_fields)
  have d: "\<forall>p\<in>set ?es. \<not> glob_match env1 ''*.txt'' (fname p)"
    by (simp add: glob_match_env1)
  note r = empty_log_folder_is_fatal [OF a b c d]
  have f: "fa_result (main env1) = ''SUCCESS''"
    using r by (simp add: fa_result_run_loader steps_1_to_4_env1 steps_1_to_4_env0
        loader_result_def env1_fields)
  have "fatal (main env1) = Some max_empty" using r by simp
  moreover have "fatal_logged (main env1)" using r by (simp add: env1_fields)
  moreover have "lines (main env1) =
     [''Input copy failed: disk full'', ''Parsed 1 record(s) from CSV'',
      ''XML generated: 2026-01-01 update operator depts.xml'', ''Data loader runfile prepared'',
      ''Data loader: SUCCESS'']"
  proof -
    from r have "lines (main env1) =
        lines (steps_1_to_4 env1) @ [''Data loader: '' @ fa_result (main env1)]"
      by blast
    then show ?thesis by (simp only: f steps_1_to_4_env1 steps_1_to_4_env0) simp
  qed
  ultimately show ?thesis using r by blast
qed

end
